theory Spec2Isabelle
  imports Main "HOL-Library.AList" "HOL-Library.Sublist"
begin

section \<open>The medical-record service\<close>

text \<open>
  \<^verbatim>\<open>medical-record.service.ts\<close>. The service holds two strings, the base URL of the
  API and the MySQL connection URL. A JavaScript \<^verbatim>\<open>throw new Error(msg)\<close> is the
  left injection of a sum. \<^verbatim>\<open>this.http.get(url, {params})\<close> and
  \<^verbatim>\<open>this.http.post(url, formData)\<close> build a cold observable: the value returned
  describes the request, which goes out when a component subscribes. The model
  returns that description.
\<close>

datatype error = Error string

record MedicalRecordService =
  baseUrl :: string
  mysqlUrl :: string

definition constructor :: MedicalRecordService where
  "constructor =
     \<lparr>baseUrl = ''http://127.0.0.1:5000'',
      mysqlUrl = ''mysql+pymysql://root@localhost:3306/healthcare_db''\<rparr>"

definition setMySqlUrl :: "string \<Rightarrow> MedicalRecordService \<Rightarrow> MedicalRecordService" where
  "setMySqlUrl url s = s\<lparr>mysqlUrl := url\<rparr>"

definition getMySqlUrl :: "MedicalRecordService \<Rightarrow> string" where
  "getMySqlUrl s = mysqlUrl s"

text \<open>
  A \<^verbatim>\<open>File\<close> is a name and its bytes. A \<^verbatim>\<open>FormData\<close> is the ordered list of its
  entries; \<^verbatim>\<open>append\<close> adds one at the end and keeps earlier entries of the same
  key. \<^verbatim>\<open>HttpParams\<close> is a keyed collection whose \<^verbatim>\<open>set\<close> replaces the value of a
  key already there and adds the key at the end otherwise.
\<close>

record File =
  file_name :: string
  file_bytes :: string

datatype form_value = FileValue File string | TextValue string

type_synonym FormData = "(string \<times> form_value) list"

definition formData_append :: "string \<Rightarrow> form_value \<Rightarrow> FormData \<Rightarrow> FormData" where
  "formData_append k v formData = formData @ [(k, v)]"

type_synonym HttpParams = "(string \<times> string) list"

definition params_set :: "string \<Rightarrow> string \<Rightarrow> HttpParams \<Rightarrow> HttpParams" where
  "params_set k v params = AList.update k v params"

datatype http_request = Get string HttpParams | Post string FormData

definition validateMySqlUrl :: "MedicalRecordService \<Rightarrow> error + unit" where
  "validateMySqlUrl s =
     (if mysqlUrl s = [] then Inl (Error ''MySQL URL is not set'') else Inr ())"

definition getUserEncounters :: "MedicalRecordService \<Rightarrow> string \<Rightarrow> error + http_request" where
  "getUserEncounters s patientId =
     (case validateMySqlUrl s of
        Inl e \<Rightarrow> Inl e
      | Inr _ \<Rightarrow>
          Inr (Get (baseUrl s @ ''/get_user_encounters'')
                 (params_set ''patient_id'' patientId
                    (params_set ''mysql_url'' (mysqlUrl s) []))))"

definition getEncounterDetails :: "MedicalRecordService \<Rightarrow> string \<Rightarrow> error + http_request" where
  "getEncounterDetails s encounterId =
     (case validateMySqlUrl s of
        Inl e \<Rightarrow> Inl e
      | Inr _ \<Rightarrow>
          Inr (Get (baseUrl s @ ''/get_encounter_details'')
                 (params_set ''encounter_id'' encounterId
                    (params_set ''mysql_url'' (mysqlUrl s) []))))"

definition getPatientObservations :: "MedicalRecordService \<Rightarrow> string \<Rightarrow> error + http_request" where
  "getPatientObservations s patientId =
     (case validateMySqlUrl s of
        Inl e \<Rightarrow> Inl e
      | Inr _ \<Rightarrow>
          Inr (Get (baseUrl s @ ''/observations/patient'')
                 (params_set ''patient_id'' patientId
                    (params_set ''mysql_url'' (mysqlUrl s) []))))"

definition getPatientImmunizations :: "MedicalRecordService \<Rightarrow> string \<Rightarrow> error + http_request" where
  "getPatientImmunizations s patientId =
     (case validateMySqlUrl s of
        Inl e \<Rightarrow> Inl e
      | Inr _ \<Rightarrow>
          Inr (Get (baseUrl s @ ''/immunizations/patient'')
                 (params_set ''patient_id'' patientId
                    (params_set ''mysql_url'' (mysqlUrl s) []))))"

definition getPatientConditions :: "MedicalRecordService \<Rightarrow> string \<Rightarrow> error + http_request" where
  "getPatientConditions s patientId =
     (case validateMySqlUrl s of
        Inl e \<Rightarrow> Inl e
      | Inr _ \<Rightarrow>
          Inr (Get (baseUrl s @ ''/conditions/patient'')
                 (params_set ''patient_id'' patientId
                    (params_set ''mysql_url'' (mysqlUrl s) []))))"

definition getPatientMedicationRequests :: "MedicalRecordService \<Rightarrow> string \<Rightarrow> error + http_request" where
  "getPatientMedicationRequests s patientId =
     (case validateMySqlUrl s of
        Inl e \<Rightarrow> Inl e
      | Inr _ \<Rightarrow>
          Inr (Get (baseUrl s @ ''/medication-requests/patient'')
                 (params_set ''patient_id'' patientId
                    (params_set ''mysql_url'' (mysqlUrl s) []))))"

definition getPatientCareplans :: "MedicalRecordService \<Rightarrow> string \<Rightarrow> error + http_request" where
  "getPatientCareplans s patientId =
     (case validateMySqlUrl s of
        Inl e \<Rightarrow> Inl e
      | Inr _ \<Rightarrow>
          Inr (Get (baseUrl s @ ''/careplans/patient'')
                 (params_set ''patient_id'' patientId
                    (params_set ''mysql_url'' (mysqlUrl s) []))))"

text \<open>The remaining methods write the guard out instead of calling \<^verbatim>\<open>validateMySqlUrl\<close>.\<close>

definition getDashboardData :: "MedicalRecordService \<Rightarrow> error + http_request" where
  "getDashboardData s =
     (if mysqlUrl s = [] then Inl (Error ''MySQL URL is not set'')
      else Inr (Get (baseUrl s @ ''/dashboard'')
                  (params_set ''mysql_url'' (mysqlUrl s) [])))"

definition uploadFiles :: "MedicalRecordService \<Rightarrow> FormData \<Rightarrow> error + http_request" where
  "uploadFiles s formData =
     (if mysqlUrl s = [] then Inl (Error ''MySQL URL is not set'')
      else Inr (Post (baseUrl s @ ''/upload'')
                  (formData_append ''mysql_url'' (TextValue (mysqlUrl s)) formData)))"

definition getPatientEMR :: "MedicalRecordService \<Rightarrow> string \<Rightarrow> error + http_request" where
  "getPatientEMR s patientId =
     (if mysqlUrl s = [] then Inl (Error ''MySQL URL is not set'')
      else Inr (Get (baseUrl s @ ''/search_patient'')
                  (params_set ''patient_id'' patientId
                     (params_set ''mysql_url'' (mysqlUrl s) []))))"

definition getAllPatients :: "MedicalRecordService \<Rightarrow> error + http_request" where
  "getAllPatients s =
     (if mysqlUrl s = [] then Inl (Error ''MySQL URL is not set'')
      else Inr (Get (baseUrl s @ ''/patients'')
                  (params_set ''mysql_url'' (mysqlUrl s) [])))"

definition searchPatientsByName :: "MedicalRecordService \<Rightarrow> string \<Rightarrow> error + http_request" where
  "searchPatientsByName s nm =
     (if mysqlUrl s = [] then Inl (Error ''MySQL URL is not set'')
      else Inr (Get (baseUrl s @ ''/search_patient'')
                  (params_set ''name'' nm
                     (params_set ''mysql_url'' (mysqlUrl s) []))))"

definition getPatientEncounters :: "MedicalRecordService \<Rightarrow> string \<Rightarrow> error + http_request" where
  "getPatientEncounters s patientId =
     (if mysqlUrl s = [] then Inl (Error ''MySQL URL is not set'')
      else Inr (Get (baseUrl s @ ''/get_user_encounters'')
                  (params_set ''patient_id'' patientId
                     (params_set ''mysql_url'' (mysqlUrl s) []))))"

text \<open>
  One constructor per HTTP-issuing method of the class, with the method's argument,
  so that a statement about \<open>invoke s c\<close> for every \<open>c\<close> is a statement about every
  method. A client of the service is a sequence of calls; only \<^verbatim>\<open>setMySqlUrl\<close>
  assigns a field.
\<close>

datatype api_call =
    GetUserEncounters string
  | GetEncounterDetails string
  | GetPatientObservations string
  | GetPatientImmunizations string
  | GetPatientConditions string
  | GetPatientMedicationRequests string
  | GetPatientCareplans string
  | GetDashboardData
  | UploadFiles FormData
  | GetPatientEMR string
  | GetAllPatients
  | SearchPatientsByName string
  | GetPatientEncounters string

fun invoke :: "MedicalRecordService \<Rightarrow> api_call \<Rightarrow> error + http_request" where
  "invoke s (GetUserEncounters p) = getUserEncounters s p"
| "invoke s (GetEncounterDetails e) = getEncounterDetails s e"
| "invoke s (GetPatientObservations p) = getPatientObservations s p"
| "invoke s (GetPatientImmunizations p) = getPatientImmunizations s p"
| "invoke s (GetPatientConditions p) = getPatientConditions s p"
| "invoke s (GetPatientMedicationRequests p) = getPatientMedicationRequests s p"
| "invoke s (GetPatientCareplans p) = getPatientCareplans s p"
| "invoke s GetDashboardData = getDashboardData s"
| "invoke s (UploadFiles fd) = uploadFiles s fd"
| "invoke s (GetPatientEMR p) = getPatientEMR s p"
| "invoke s GetAllPatients = getAllPatients s"
| "invoke s (SearchPatientsByName n) = searchPatientsByName s n"
| "invoke s (GetPatientEncounters p) = getPatientEncounters s p"

datatype service_op = SetMySqlUrl string | GetMySqlUrl | Invoke api_call

fun service_step :: "MedicalRecordService \<Rightarrow> service_op \<Rightarrow> MedicalRecordService" where
  "service_step s (SetMySqlUrl u) = setMySqlUrl u s"
| "service_step s GetMySqlUrl = s"
| "service_step s (Invoke c) = s"

definition service_after :: "service_op list \<Rightarrow> MedicalRecordService" where
  "service_after ops = foldl service_step constructor ops"

text \<open>The textual parameters a request carries: query parameters, or text form fields.\<close>

fun text_parameters :: "http_request \<Rightarrow> (string \<times> string) list" where
  "text_parameters (Get url params) = params"
| "text_parameters (Post url formData) =
     concat (map (\<lambda>(k, v). case v of TextValue t \<Rightarrow> [(k, t)] | FileValue f n \<Rightarrow> []) formData)"

section \<open>The upload view\<close>

text \<open>
  \<^verbatim>\<open>upload/upload.component.ts\<close>. \<^verbatim>\<open>selectedFiles\<close> is a \<^verbatim>\<open>FileList\<close> or
  \<^verbatim>\<open>null\<close>; a \<^verbatim>\<open>FileList\<close> is an object, hence truthy, also when it holds no file.
\<close>

record UploadComponent =
  selectedFiles :: "File list option"
  directoryFiles :: "File list"
  isUploading :: bool
  uploadMessage :: string

definition UploadComponent_new :: UploadComponent where
  "UploadComponent_new =
     \<lparr>selectedFiles = None, directoryFiles = [], isUploading = False, uploadMessage = []\<rparr>"

definition onFileSelected :: "File list option \<Rightarrow> UploadComponent \<Rightarrow> UploadComponent" where
  "onFileSelected files c = c\<lparr>selectedFiles := files\<rparr>"

definition onDirectorySelected :: "File list \<Rightarrow> UploadComponent \<Rightarrow> UploadComponent" where
  "onDirectorySelected files c =
     foldl (\<lambda>c' f. c'\<lparr>directoryFiles := directoryFiles c' @ [f]\<rparr>)
       (c\<lparr>directoryFiles := []\<rparr>) files"

text \<open>Truthiness of a value of type \<^verbatim>\<open>FileList | null\<close>: every object is truthy.\<close>

definition truthy :: "'a option \<Rightarrow> bool" where
  "truthy v = (case v of None \<Rightarrow> False | Some obj \<Rightarrow> True)"

text \<open>
  What a call of the component's \<^verbatim>\<open>uploadFiles\<close> did about the network: it
  subscribed to a request, the service threw before any request existed, or the
  call took the branch that asks for files.
\<close>

datatype upload_outcome = Subscribed http_request | Thrown error | NoRequest

definition UploadComponent_uploadFiles ::
  "MedicalRecordService \<Rightarrow> UploadComponent \<Rightarrow> UploadComponent \<times> upload_outcome" where
  "UploadComponent_uploadFiles svc c =
     (if truthy (selectedFiles c) \<or> length (directoryFiles c) > 0 then
        let c1 = c\<lparr>isUploading := True\<rparr>;
            formData0 = [];
            formData1 =
              (case selectedFiles c1 of
                 Some files \<Rightarrow>
                   foldl (\<lambda>fd file. formData_append ''files'' (FileValue file (file_name file)) fd)
                     formData0 files
               | None \<Rightarrow> formData0);
            formData2 =
              foldl (\<lambda>fd file. formData_append ''files'' (FileValue file (file_name file)) fd)
                formData1 (directoryFiles c1)
        in (case uploadFiles svc formData2 of
              Inl e \<Rightarrow> (c1, Thrown e)
            | Inr request \<Rightarrow> (c1, Subscribed request))
      else (c\<lparr>uploadMessage := ''Please select files to upload.''\<rparr>, NoRequest))"

text \<open>The two callbacks of the subscription.\<close>

definition upload_next :: "UploadComponent \<Rightarrow> UploadComponent" where
  "upload_next c = c\<lparr>uploadMessage := ''Files uploaded successfully!'', isUploading := False\<rparr>"

definition upload_error :: "UploadComponent \<Rightarrow> UploadComponent" where
  "upload_error c = c\<lparr>uploadMessage := ''Upload failed. Please try again.'', isUploading := False\<rparr>"

section \<open>The EMR view\<close>

text \<open>
  \<^verbatim>\<open>EmrComponent\<close>, in the variant that declares the eight data fields. Each fetch
  method subscribes to one request of the service and assigns the response to one
  field of the component; a subscription is the pair of the two. The statements of
  \<^verbatim>\<open>ngOnInit\<close> run in order, and the first one that throws ends the call.
\<close>

datatype emr_field =
    F_patient | F_encounters | F_encounterDetails | F_observations
  | F_immunizations | F_carePlans | F_conditions | F_medicationRequests

type_synonym subscription = "http_request \<times> emr_field"

definition subscribe_into :: "emr_field \<Rightarrow> error + http_request \<Rightarrow> error + subscription" where
  "subscribe_into field r = (case r of Inl e \<Rightarrow> Inl e | Inr request \<Rightarrow> Inr (request, field))"

definition fetchPatientDetails :: "MedicalRecordService \<Rightarrow> string \<Rightarrow> error + subscription" where
  "fetchPatientDetails svc patientId = subscribe_into F_patient (getPatientEMR svc patientId)"

definition fetchPatientEncounters :: "MedicalRecordService \<Rightarrow> string \<Rightarrow> error + subscription" where
  "fetchPatientEncounters svc patientId =
     subscribe_into F_encounters (getPatientEncounters svc patientId)"

definition fetchObservations :: "MedicalRecordService \<Rightarrow> string \<Rightarrow> error + subscription" where
  "fetchObservations svc patientId =
     subscribe_into F_observations (getPatientObservations svc patientId)"

definition fetchImmunizations :: "MedicalRecordService \<Rightarrow> string \<Rightarrow> error + subscription" where
  "fetchImmunizations svc patientId =
     subscribe_into F_immunizations (getPatientImmunizations svc patientId)"

definition fetchCarePlans :: "MedicalRecordService \<Rightarrow> string \<Rightarrow> error + subscription" where
  "fetchCarePlans svc patientId =
     subscribe_into F_carePlans (getPatientCareplans svc patientId)"

definition fetchConditions :: "MedicalRecordService \<Rightarrow> string \<Rightarrow> error + subscription" where
  "fetchConditions svc patientId =
     subscribe_into F_conditions (getPatientConditions svc patientId)"

definition fetchMedicationRequests :: "MedicalRecordService \<Rightarrow> string \<Rightarrow> error + subscription" where
  "fetchMedicationRequests svc patientId =
     subscribe_into F_medicationRequests (getPatientMedicationRequests svc patientId)"

definition viewEncounterDetails :: "MedicalRecordService \<Rightarrow> string \<Rightarrow> error + subscription" where
  "viewEncounterDetails svc encounterId =
     subscribe_into F_encounterDetails (getEncounterDetails svc encounterId)"

fun run_statements :: "(error + 'a) list \<Rightarrow> 'a list \<times> error option" where
  "run_statements [] = ([], None)"
| "run_statements (Inl e # rest) = ([], Some e)"
| "run_statements (Inr x # rest) = (case run_statements rest of (xs, r) \<Rightarrow> (x # xs, r))"

text \<open>
  \<^verbatim>\<open>this.route.snapshot.paramMap.get('id')\<close> is a string or \<^verbatim>\<open>null\<close>, and
  \<^verbatim>\<open>if (patientId)\<close> is false for \<^verbatim>\<open>null\<close> and for the empty string. The result is
  the subscriptions made, in order, and the error thrown, if any.
\<close>

definition EmrComponent_ngOnInit ::
  "MedicalRecordService \<Rightarrow> string option \<Rightarrow> subscription list \<times> error option" where
  "EmrComponent_ngOnInit svc route_id =
     (case route_id of
        None \<Rightarrow> ([], None)
      | Some patientId \<Rightarrow>
          if patientId \<noteq> [] then
            run_statements
              [fetchPatientDetails svc patientId,
               fetchPatientEncounters svc patientId,
               fetchObservations svc patientId,
               fetchImmunizations svc patientId,
               fetchCarePlans svc patientId,
               fetchConditions svc patientId,
               fetchMedicationRequests svc patientId]
          else ([], None))"

section \<open>The resource types of the data model\<close>

text \<open>
  The eight resource types. Every type but \<open>Patient\<close> is a child entity of a patient.
\<close>

datatype resource_type =
    Patient | Encounter | Condition | Observation
  | Immunization | CarePlan | MedicationRequest | Procedure

definition child_types :: "resource_type list" where
  "child_types =
     [Encounter, Condition, Observation, MedicationRequest, Procedure, Immunization, CarePlan]"

section \<open>The patients view\<close>

text \<open>
  \<^verbatim>\<open>PatientsComponent\<close>. A patient row is whatever the API returned; the code reads
  its \<^verbatim>\<open>full_name\<close>, so a row is any record that has this field. A string is a
  list of code units below 256 (Latin-1). On such a string \<^verbatim>\<open>toLowerCase\<close> works
  unit by unit: the capitals \<^verbatim>\<open>A\<close>..\<^verbatim>\<open>Z\<close> and U+00C0..U+00DE, without the
  multiplication sign U+00D7, go to the small letter 32 units above, and every
  other unit stays. Strings with units from 256 on, where lower-casing can depend on
  the neighbours of a letter, are not values of this model.
  \<^verbatim>\<open>s.includes(q)\<close> looks for \<^verbatim>\<open>q\<close> at each position of \<^verbatim>\<open>s\<close>, from the left.
\<close>

record patient =
  full_name :: string

definition lower_char :: "char \<Rightarrow> char" where
  "lower_char c =
     (let n = (of_char c :: nat)
      in if (65 \<le> n \<and> n \<le> 90) \<or> (192 \<le> n \<and> n \<le> 222 \<and> n \<noteq> 215)
         then char_of (n + 32) else c)"

definition toLowerCase :: "string \<Rightarrow> string" where
  "toLowerCase s = map lower_char s"

fun string_includes :: "string \<Rightarrow> string \<Rightarrow> bool" where
  "string_includes [] q = (q = [])"
| "string_includes (c # cs) q = (prefix q (c # cs) \<or> string_includes cs q)"

text \<open>
  The two \<^verbatim>\<open>map\<close> stages of the pipeline behind \<^verbatim>\<open>filteredPatients$\<close>, applied to
  one value of the search control (a string or \<^verbatim>\<open>null\<close>) that reaches them.
\<close>

definition filteredPatients ::
  "'a patient_scheme list \<Rightarrow> string option \<Rightarrow> 'a patient_scheme list" where
  "filteredPatients patients v =
     (let query = (case v of None \<Rightarrow> [] | Some q \<Rightarrow> q)
      in filter (\<lambda>patient. string_includes (toLowerCase (full_name patient)) (toLowerCase query))
           patients)"


definition capital_letters :: "nat list" where
  "capital_letters = [65..<91] @ [192..<215] @ [216..<223]"

definition letter_cases :: "(char \<times> char) list" where
  "letter_cases = map (\<lambda>n. (char_of n, char_of (n + 32))) capital_letters"

definition same_ignoring_case :: "char \<Rightarrow> char \<Rightarrow> bool" where
  "same_ignoring_case c d =
     (c = d \<or> (c, d) \<in> set letter_cases \<or> (d, c) \<in> set letter_cases)"


definition displayedColumns :: "string list" where
  "displayedColumns =
     [''patient_id'',
      ''full_name'',
      ''birth_date'',
      ''gender'',
      ''deceased_datetime'',
      ''encounter_count'',
      ''condition_count'',
      ''observation_count'',
      ''request_count'',
      ''procedure_count'',
      ''immunization_count'',
      ''careplan_count'']"

text \<open>
  A count column is one whose name ends in \<^verbatim>\<open>_count\<close>; \<open>count_column_of\<close> names the
  column that counts the rows of a child entity type.
\<close>

definition is_count_column :: "string \<Rightarrow> bool" where
  "is_count_column c = suffix ''_count'' c"

fun count_column_of :: "resource_type \<Rightarrow> string option" where
  "count_column_of Patient = None"
| "count_column_of Encounter = Some ''encounter_count''"
| "count_column_of Condition = Some ''condition_count''"
| "count_column_of Observation = Some ''observation_count''"
| "count_column_of MedicationRequest = Some ''request_count''"
| "count_column_of Procedure = Some ''procedure_count''"
| "count_column_of Immunization = Some ''immunization_count''"
| "count_column_of CarePlan = Some ''careplan_count''"

section \<open>The population dashboard\<close>

text \<open>
  \<^verbatim>\<open>PopulationDashboardComponent\<close>, in the variant that draws the charts. The
  response is typed \<^verbatim>\<open>any\<close>; the arrow functions of \<^verbatim>\<open>createCharts\<close> annotate the
  fields they read from each item, and the records below are those annotations. A
  field value is \<^verbatim>\<open>null\<close>, a number whose value is an integer, a string, or any
  other value (a fraction, a boolean, an object), which is kept abstract.

  A template literal converts a value to a string. It converts \<^verbatim>\<open>null\<close> to
  \<^verbatim>\<open>null\<close>, a string to itself, and a safe integer (at most \<open>2\<^sup>5\<^sup>3 - 1\<close> in absolute
  value, which a number holds exactly) to its decimal digits, with a minus sign
  when negative. For every other value, among them the integers beyond that range,
  which JavaScript rounds and, from \<open>10\<^sup>2\<^sup>1\<close>, writes with an exponent, the conversion
  is the parameter \<open>other\<close>, which stands for JavaScript's conversion there.
\<close>

datatype 'a jsvalue = Null | Num int | Str string | Other 'a

fun show_nat :: "nat \<Rightarrow> string" where
  "show_nat n =
     (if n < 10 then [char_of (48 + n)]
      else show_nat (n div 10) @ [char_of (48 + n mod 10)])"

definition show_int :: "int \<Rightarrow> string" where
  "show_int i = (if i < 0 then CHR ''-'' # show_nat (nat (- i)) else show_nat (nat i))"

definition safe_integer :: "int \<Rightarrow> bool" where
  "safe_integer i = (- 9007199254740991 \<le> i \<and> i \<le> 9007199254740991)"

fun to_string :: "('a jsvalue \<Rightarrow> string) \<Rightarrow> 'a jsvalue \<Rightarrow> string" where
  "to_string other Null = ''null''"
| "to_string other (Num i) = (if safe_integer i then show_int i else other (Num i))"
| "to_string other (Str s) = s"
| "to_string other (Other x) = other (Other x)"

record 'a gender_row =
  gender :: "'a jsvalue"
  patient_count :: "'a jsvalue"

record 'a condition_row =
  code_text :: "'a jsvalue"
  condition_count :: "'a jsvalue"

record 'a time_bucket =
  year :: "'a jsvalue"
  month :: "'a jsvalue"

record 'a immunization_row = "'a time_bucket" +
  immunization_count :: "'a jsvalue"

record 'a encounter_row = "'a time_bucket" +
  encounter_count :: "'a jsvalue"

record 'a medication_row =
  status :: "'a jsvalue"
  medication_count :: "'a jsvalue"

record 'a dashboardData =
  patients_by_gender :: "'a gender_row list"
  conditions_by_category :: "'a condition_row list"
  immunization_over_time :: "'a immunization_row list"
  encounters_over_time :: "'a encounter_row list"
  medication_status_distribution :: "'a medication_row list"
  top_conditions :: "'a condition_row list"

text \<open>
  A \<^verbatim>\<open>Chart\<close> is the canvas it is drawn on and its configuration. A colour option is
  a string or an array of strings; a dataset has at most the five options below.
\<close>

record 'a dataset =
  label :: "string option"
  data :: "'a jsvalue list"
  backgroundColor :: "string list"
  borderColor :: "string option"
  fill :: "bool option"

record 'a Chart =
  canvas :: string
  chart_type :: string
  labels :: "'a jsvalue list"
  datasets :: "'a dataset list"

text \<open>The template literal \<^verbatim>\<open>${item.year}-${item.month}\<close>.\<close>

definition year_month :: "('a jsvalue \<Rightarrow> string) \<Rightarrow> ('a, 'b) time_bucket_scheme \<Rightarrow> 'a jsvalue" where
  "year_month other item =
     Str (to_string other (year item) @ ''-'' @ to_string other (month item))"

definition genderChart :: "'a dashboardData \<Rightarrow> 'a Chart" where
  "genderChart d =
     \<lparr>canvas = ''genderChart'', chart_type = ''pie'',
      labels = map gender (patients_by_gender d),
      datasets =
        [\<lparr>label = None,
          data = map patient_count (patients_by_gender d),
          backgroundColor = [''#FF6384'', ''#36A2EB'', ''#FFCE56''],
          borderColor = None, fill = None\<rparr>]\<rparr>"

definition conditionsCategoryChart :: "'a dashboardData \<Rightarrow> 'a Chart" where
  "conditionsCategoryChart d =
     \<lparr>canvas = ''conditionsCategoryChart'', chart_type = ''bar'',
      labels = map code_text (conditions_by_category d),
      datasets =
        [\<lparr>label = Some ''Conditions Count'',
          data = map condition_count (conditions_by_category d),
          backgroundColor = [''#FF6384''],
          borderColor = None, fill = None\<rparr>]\<rparr>"

definition immunizationChart :: "('a jsvalue \<Rightarrow> string) \<Rightarrow> 'a dashboardData \<Rightarrow> 'a Chart" where
  "immunizationChart other d =
     \<lparr>canvas = ''immunizationChart'', chart_type = ''line'',
      labels = map (year_month other) (immunization_over_time d),
      datasets =
        [\<lparr>label = Some ''Immunization Count'',
          data = map immunization_count (immunization_over_time d),
          backgroundColor = [],
          borderColor = Some ''#36A2EB'', fill = Some False\<rparr>]\<rparr>"

definition encounterChart :: "('a jsvalue \<Rightarrow> string) \<Rightarrow> 'a dashboardData \<Rightarrow> 'a Chart" where
  "encounterChart other d =
     \<lparr>canvas = ''encounterChart'', chart_type = ''line'',
      labels = map (year_month other) (encounters_over_time d),
      datasets =
        [\<lparr>label = Some ''Encounter Count'',
          data = map encounter_count (encounters_over_time d),
          backgroundColor = [],
          borderColor = Some ''#FFCE56'', fill = Some False\<rparr>]\<rparr>"

definition medicationStatusChart :: "'a dashboardData \<Rightarrow> 'a Chart" where
  "medicationStatusChart d =
     \<lparr>canvas = ''medicationStatusChart'', chart_type = ''pie'',
      labels = map status (medication_status_distribution d),
      datasets =
        [\<lparr>label = None,
          data = map medication_count (medication_status_distribution d),
          backgroundColor = [''#FF6384'', ''#36A2EB'', ''#FFCE56''],
          borderColor = None, fill = None\<rparr>]\<rparr>"

definition topConditionsChart :: "'a dashboardData \<Rightarrow> 'a Chart" where
  "topConditionsChart d =
     \<lparr>canvas = ''topConditionsChart'', chart_type = ''bar'',
      labels = map code_text (top_conditions d),
      datasets =
        [\<lparr>label = Some ''Condition Count'',
          data = map condition_count (top_conditions d),
          backgroundColor = [''#FF6384''],
          borderColor = None, fill = None\<rparr>]\<rparr>"

text \<open>
  \<^verbatim>\<open>createCharts\<close> builds the six charts in this order. On a response of the shape
  above no constructor argument throws, so the \<^verbatim>\<open>catch\<close> block is not entered.
\<close>

definition createCharts :: "('a jsvalue \<Rightarrow> string) \<Rightarrow> 'a dashboardData \<Rightarrow> 'a Chart list" where
  "createCharts other d =
     [genderChart d, conditionsCategoryChart d, immunizationChart other d,
      encounterChart other d, medicationStatusChart d, topConditionsChart d]"

text \<open>
  The success callback of \<^verbatim>\<open>loadDashboardData\<close>: it stores the response and, when
  the response is truthy, draws the charts.
\<close>

definition loadDashboardData_next ::
  "('a jsvalue \<Rightarrow> string) \<Rightarrow> 'a dashboardData option \<Rightarrow> 'a dashboardData option \<times> 'a Chart list" where
  "loadDashboardData_next other response =
     (case response of None \<Rightarrow> (None, []) | Some d \<Rightarrow> (Some d, createCharts other d))"

text \<open>
  The spec's words: a label names a year-month bucket. A decimal numeral is read
  here on its own, digit by digit: it is a non-empty string of the digits
  \<^verbatim>\<open>0\<close>..\<^verbatim>\<open>9\<close> with no leading zero, and a minus sign in front of one that is not
  zero makes it negative.
\<close>

definition is_digit :: "char \<Rightarrow> bool" where
  "is_digit c = (c \<in> set ''0123456789'')"

fun digits_value :: "nat \<Rightarrow> string \<Rightarrow> nat" where
  "digits_value acc [] = acc"
| "digits_value acc (c # cs) = digits_value (10 * acc + (of_char c - of_char CHR ''0'')) cs"

definition natural_numeral :: "string \<Rightarrow> nat option" where
  "natural_numeral s =
     (if s \<noteq> [] \<and> list_all is_digit s \<and> (s = ''0'' \<or> hd s \<noteq> CHR ''0'')
      then Some (digits_value 0 s) else None)"

definition numeral_value :: "string \<Rightarrow> int option" where
  "numeral_value s =
     (case s of
        [] \<Rightarrow> None
      | c # rest \<Rightarrow>
          if c = CHR ''-'' then
            (case natural_numeral rest of
               None \<Rightarrow> None
             | Some n \<Rightarrow> if n = 0 then None else Some (- int n))
          else map_option int (natural_numeral s))"

text \<open>A response to run the model on, with one or two items in each field.\<close>

definition sample_response :: "unit dashboardData" where
  "sample_response =
     \<lparr>patients_by_gender =
        [\<lparr>gender = Str ''female'', patient_count = Num 7\<rparr>,
         \<lparr>gender = Str ''male'', patient_count = Num 5\<rparr>],
      conditions_by_category = [\<lparr>code_text = Str ''Asthma'', condition_count = Num 3\<rparr>],
      immunization_over_time =
        [\<lparr>year = Num 2019, month = Num 12, immunization_count = Num 4\<rparr>,
         \<lparr>year = Num 2020, month = Num 3, immunization_count = Num 9\<rparr>],
      encounters_over_time = [\<lparr>year = Num 2020, month = Num 3, encounter_count = Num 11\<rparr>],
      medication_status_distribution = [\<lparr>status = Str ''active'', medication_count = Num 2\<rparr>],
      top_conditions = [\<lparr>code_text = Null, condition_count = Num 1\<rparr>]\<rparr>"

section \<open>The ingestion engine\<close>

text \<open>
  The upload view posts its files to \<^verbatim>\<open>/upload\<close>. The engine behind that endpoint
  (the ETL script and the API of the repository) is not among the sources, so this
  section models it from the specification, sections 3, 4, 6 and 7. A batch is the
  sequence of documents the reader yields, one per resource instance. Each document
  is decoded, classified and transformed on its own; references are resolved against
  the batch and the store; rows are loaded by upsert on the key (type, id). The
  store is a table, a list of rows, so that a duplicate row is expressible. The
  mapping of single fields (coded concepts, dates, units) is not modelled: a decoded
  document carries its scalar fields as they are stored. The store of the model
  cannot fail, so \<open>PersistenceFailure\<close> is never raised in it, and the summary
  counts, which are derived from the table, are left out.
\<close>

type_synonym key = "resource_type \<times> string"

text \<open>
  Modelled from the spec: a decoded resource document (sections 4.1 and 4.3), with
  its discriminator, its id, its references and its mapped scalar fields, each
  absent or present. The reader's decoding is missing; a document that does not
  decode is the value \<open>Malformed\<close>.
\<close>

record resource_document =
  discriminator :: "string option"
  document_id :: "string option"
  patient_reference :: "string option"
  encounter_reference :: "string option"
  scalar_fields :: "(string \<times> string option) list"

datatype document = Malformed | Decoded resource_document

text \<open>
  Modelled from the spec: the error taxonomy of section 7, whose implementation is
  missing. A reported problem names the position of its document in the batch.
\<close>

datatype problem =
    DecodeError
  | UnsupportedResourceType string
  | MissingRequiredField string
  | UnresolvedReference key
  | PersistenceFailure

type_synonym issue = "nat \<times> problem"

definition is_DecodeError :: "issue \<Rightarrow> bool" where
  "is_DecodeError i = (case snd i of DecodeError \<Rightarrow> True | _ \<Rightarrow> False)"

text \<open>
  Modelled from the spec: the missing classifier of section 4.2, a dispatch on the
  discriminator string over the eight known types.
\<close>

definition classify :: "string \<Rightarrow> resource_type option" where
  "classify t =
     (if t = ''Patient'' then Some Patient
      else if t = ''Encounter'' then Some Encounter
      else if t = ''Condition'' then Some Condition
      else if t = ''Observation'' then Some Observation
      else if t = ''Immunization'' then Some Immunization
      else if t = ''CarePlan'' then Some CarePlan
      else if t = ''MedicationRequest'' then Some MedicationRequest
      else if t = ''Procedure'' then Some Procedure
      else None)"

text \<open>
  Modelled from the spec: the value the missing transformer of section 4.3 produces,
  a row value and the outgoing references (target type and target id).
\<close>

record draft =
  draft_type :: resource_type
  draft_id :: string
  draft_fields :: "(string \<times> string option) list"
  draft_references :: "key list"

definition draft_key :: "draft \<Rightarrow> key" where
  "draft_key d = (draft_type d, draft_id d)"

text \<open>
  Modelled from the spec: which resource types carry the optional encounter
  reference, by the missing schema of section 3: conditions, observations,
  medication requests and procedures.
\<close>

definition has_encounter_reference :: "resource_type \<Rightarrow> bool" where
  "has_encounter_reference ty =
     (ty = Condition \<or> ty = Observation \<or> ty = MedicationRequest \<or> ty = Procedure)"

text \<open>
  Modelled from the spec: the missing transformer of section 4.3. It fails for this
  document alone: the discriminator, the id and, for every type but \<open>Patient\<close>, the
  patient reference are required; an unknown discriminator is unsupported.
\<close>

definition transform :: "resource_document \<Rightarrow> problem + draft" where
  "transform doc =
     (case discriminator doc of
        None \<Rightarrow> Inl (MissingRequiredField ''resourceType'')
      | Some t \<Rightarrow>
          (case classify t of
             None \<Rightarrow> Inl (UnsupportedResourceType t)
           | Some ty \<Rightarrow>
               (case document_id doc of
                  None \<Rightarrow> Inl (MissingRequiredField ''id'')
                | Some i \<Rightarrow>
                    if ty = Patient then
                      Inr \<lparr>draft_type = ty, draft_id = i,
                           draft_fields = scalar_fields doc, draft_references = []\<rparr>
                    else
                      (case patient_reference doc of
                         None \<Rightarrow> Inl (MissingRequiredField ''patient'')
                       | Some p \<Rightarrow>
                           Inr \<lparr>draft_type = ty, draft_id = i,
                                draft_fields = scalar_fields doc,
                                draft_references =
                                  (Patient, p) #
                                  (if has_encounter_reference ty then
                                     (case encounter_reference doc of
                                        None \<Rightarrow> []
                                      | Some e \<Rightarrow> [(Encounter, e)])
                                   else [])\<rparr>))))"

text \<open>
  Modelled from the spec: the missing reader of section 4.1 followed by the
  transformer, for one document: a malformed document is a \<open>DecodeError\<close>.
\<close>

definition read_document :: "document \<Rightarrow> problem + draft" where
  "read_document d = (case d of Malformed \<Rightarrow> Inl DecodeError | Decoded doc \<Rightarrow> transform doc)"

text \<open>
  Modelled from the spec: the words \<open>valid\<close> and \<open>malformed\<close> of section 8, for which
  no code is there: a document is valid when it decodes and transforms, and
  malformed when it does not decode.
\<close>

definition valid :: "document \<Rightarrow> bool" where
  "valid d = (case read_document d of Inl e \<Rightarrow> False | Inr r \<Rightarrow> True)"

definition malformed :: "document \<Rightarrow> bool" where
  "malformed d = (case d of Malformed \<Rightarrow> True | Decoded doc \<Rightarrow> False)"

text \<open>
  Modelled from the spec: a persisted row of the missing schema (sections 3 and
  4.5). A reference that resolved is stored as the id of its target, one that did
  not as null, and then the row is flagged.
\<close>

record row =
  row_type :: resource_type
  row_id :: string
  row_fields :: "(string \<times> string option) list"
  row_references :: "(resource_type \<times> string option) list"
  flagged :: bool

definition key_of :: "row \<Rightarrow> key" where
  "key_of r = (row_type r, row_id r)"

text \<open>Modelled from the spec: the lookup of a row by its key in the missing store.\<close>

definition row_at :: "key \<Rightarrow> row list \<Rightarrow> row option" where
  "row_at k store = List.find (\<lambda>r. key_of r = k) store"

text \<open>
  Modelled from the spec: the missing resolver of section 4.4. After both passes a
  reference is resolved when its target is a row of the batch or a row of the
  persistent store; \<open>known\<close> lists those keys. A reference that stays unresolved is
  reported.
\<close>

definition resolve :: "key list \<Rightarrow> draft \<Rightarrow> row" where
  "resolve known d =
     \<lparr>row_type = draft_type d, row_id = draft_id d, row_fields = draft_fields d,
      row_references =
        map (\<lambda>target. (fst target, if target \<in> set known then Some (snd target) else None))
          (draft_references d),
      flagged = (\<exists>target \<in> set (draft_references d). target \<notin> set known)\<rparr>"

definition unresolved :: "key list \<Rightarrow> nat \<times> draft \<Rightarrow> issue list" where
  "unresolved known p =
     map (\<lambda>target. (fst p, UnresolvedReference target))
       (filter (\<lambda>target. target \<notin> set known) (draft_references (snd p)))"

text \<open>
  Modelled from the spec: the missing upsert of section 4.5 on the key (type, id): a
  row of that key is overwritten where it stands, and the row is added when there
  is none. \<open>load\<close> upserts rows one after the other.
\<close>

fun upsert :: "row \<Rightarrow> row list \<Rightarrow> row list" where
  "upsert r [] = [r]"
| "upsert r (x # xs) = (if key_of x = key_of r then r # xs else x # upsert r xs)"

fun load :: "row list \<Rightarrow> row list \<Rightarrow> row list" where
  "load [] store = store"
| "load (r # rs) store = load rs (upsert r store)"

text \<open>
  Modelled from the spec: the split of the documents of a batch, each with its
  position, into those that failed and those that transformed (missing batch loop
  of section 4.1: a failure is collected, and the batch goes on).
\<close>

fun problems_of :: "(nat \<times> (problem + draft)) list \<Rightarrow> issue list" where
  "problems_of [] = []"
| "problems_of ((i, Inl e) # rest) = (i, e) # problems_of rest"
| "problems_of ((i, Inr d) # rest) = problems_of rest"

fun drafts_of :: "(nat \<times> (problem + draft)) list \<Rightarrow> (nat \<times> draft) list" where
  "drafts_of [] = []"
| "drafts_of ((i, Inl e) # rest) = drafts_of rest"
| "drafts_of ((i, Inr d) # rest) = (i, d) # drafts_of rest"

definition batch_drafts :: "document list \<Rightarrow> (nat \<times> draft) list" where
  "batch_drafts batch = drafts_of (enumerate 0 (map read_document batch))"

text \<open>
  Modelled from the spec: the rows a batch loads into a store, in the load order of
  the missing two-pass resolver (section 4.4): pass 1 takes the patients, pass 2 the
  other resources, each in batch order, with every reference resolved against the
  whole batch and the store.
\<close>

definition known_keys :: "document list \<Rightarrow> row list \<Rightarrow> key list" where
  "known_keys batch store = map (draft_key \<circ> snd) (batch_drafts batch) @ map key_of store"

definition batch_rows :: "document list \<Rightarrow> row list \<Rightarrow> row list" where
  "batch_rows batch store =
     (let drafts = map snd (batch_drafts batch);
          pass1 = filter (\<lambda>d. draft_type d = Patient) drafts;
          pass2 = filter (\<lambda>d. draft_type d \<noteq> Patient) drafts
      in map (resolve (known_keys batch store)) (pass1 @ pass2))"

text \<open>Modelled from the spec: the row one document of a batch contributes, if it is valid.\<close>

definition document_row :: "key list \<Rightarrow> document \<Rightarrow> row option" where
  "document_row known d =
     (case read_document d of Inl e \<Rightarrow> None | Inr dr \<Rightarrow> Some (resolve known dr))"

text \<open>
  Modelled from the spec: the per-batch result of the missing ingestion entry point
  (section 6): the counts of resources created, updated and skipped, and the list
  of per-document errors and warnings.
\<close>

record batch_result =
  created :: nat
  updated :: nat
  skipped :: nat
  issues :: "issue list"

text \<open>
  Modelled from the spec: the missing batch ingestion. A document that fails is
  reported and skipped, and the others are loaded; a row with an unresolved
  reference is loaded and reported. A created row is one the store gained.
\<close>

definition ingest :: "document list \<Rightarrow> row list \<Rightarrow> row list \<times> batch_result" where
  "ingest batch store =
     (let rows = batch_rows batch store;
          store' = load rows store;
          n_created = length store' - length store
      in (store',
          \<lparr>created = n_created,
           updated = length rows - n_created,
           skipped = length batch - length rows,
           issues =
             problems_of (enumerate 0 (map read_document batch))
             @ concat (map (unresolved (known_keys batch store)) (batch_drafts batch))\<rparr>))"

text \<open>Modelled from the spec: the missing engine invoked once per batch, from a given store.\<close>

definition ingest_all :: "document list list \<Rightarrow> row list \<Rightarrow> row list" where
  "ingest_all batches store = foldl (\<lambda>s batch. fst (ingest batch s)) store batches"

text \<open>
  Two batches to run the model on. The first has an encounter ahead of its patient
  and the same patient id twice. The second has one malformed document and nine
  valid ones, one of them with a reference to an encounter that is nowhere.
\<close>

definition resource ::
  "string \<Rightarrow> string \<Rightarrow> string option \<Rightarrow> string option \<Rightarrow> (string \<times> string option) list
     \<Rightarrow> document" where
  "resource t i p e fs =
     Decoded \<lparr>discriminator = Some t, document_id = Some i, patient_reference = p,
              encounter_reference = e, scalar_fields = fs\<rparr>"

definition repeated_patient_batch :: "document list" where
  "repeated_patient_batch =
     [resource ''Encounter'' ''e1'' (Some ''p1'') None [(''status'', Some ''finished'')],
      resource ''Patient'' ''p1'' None None [(''birth_date'', Some ''1980-02-01'')],
      resource ''Patient'' ''p1'' None None [(''birth_date'', Some ''1981-02-01'')]]"

definition one_malformed_nine_valid :: "document list" where
  "one_malformed_nine_valid =
     [resource ''Encounter'' ''e1'' (Some ''p1'') None [(''status'', Some ''finished'')],
      Malformed,
      resource ''Patient'' ''p1'' None None [(''birth_date'', Some ''1980-02-01'')],
      resource ''Patient'' ''p2'' None None [(''birth_date'', None)],
      resource ''Condition'' ''c1'' (Some ''p1'') (Some ''e1'') [],
      resource ''Observation'' ''o1'' (Some ''p2'') (Some ''e9'') [],
      resource ''Immunization'' ''i1'' (Some ''p1'') None [],
      resource ''CarePlan'' ''cp1'' (Some ''p2'') None [],
      resource ''MedicationRequest'' ''m1'' (Some ''p1'') None [],
      resource ''Procedure'' ''pr1'' (Some ''p2'') None []]"

section \<open>Properties of the service\<close>

lemmas service_method_defs =
  getUserEncounters_def getEncounterDetails_def getPatientObservations_def
  getPatientImmunizations_def getPatientConditions_def getPatientMedicationRequests_def
  getPatientCareplans_def getDashboardData_def uploadFiles_def getPatientEMR_def
  getAllPatients_def searchPatientsByName_def getPatientEncounters_def validateMySqlUrl_def

lemma invoke_empty_url:
  "mysqlUrl s = [] \<Longrightarrow> invoke s c = Inl (Error ''MySQL URL is not set'')"
  by (cases c) (simp_all add: service_method_defs)

lemma invoke_nonempty_url:
  "mysqlUrl s \<noteq> [] \<Longrightarrow>
     \<exists>r. invoke s c = Inr r \<and> (''mysql_url'', mysqlUrl s) \<in> set (text_parameters r)"
  by (cases c) (simp_all add: service_method_defs params_set_def formData_append_def)

lemma service_after_snoc:
  "service_after (ops @ [x]) = service_step (service_after ops) x"
  by (simp add: service_after_def)

lemma empty_url_needs_set:
  "mysqlUrl (service_after ops) = [] \<Longrightarrow> SetMySqlUrl [] \<in> set ops"
proof (induction ops rule: rev_induct)
  case Nil
  then show ?case by (simp add: service_after_def constructor_def)
next
  case (snoc x xs)
  then show ?case
    by (cases x) (auto simp: service_after_snoc setMySqlUrl_def)
qed

text \<open>
  C8. Every HTTP-issuing method of the service throws the error
  \<^verbatim>\<open>MySQL URL is not set\<close> and returns no request when the stored MySQL URL is empty,
  and otherwise returns a request that carries the stored URL under \<^verbatim>\<open>mysql_url\<close> (a
  query parameter of a GET, a form field of the upload). The constructor stores a
  non-empty URL, and after any sequence of calls on a new service the stored URL is
  empty only if one of the calls was \<^verbatim>\<open>setMySqlUrl('')\<close>.
\<close>

theorem every_method_guards_mysql_url:
  "(mysqlUrl s = [] \<longrightarrow> invoke s c = Inl (Error ''MySQL URL is not set''))
   \<and> (mysqlUrl s \<noteq> [] \<longrightarrow>
        (\<exists>r. invoke s c = Inr r \<and> (''mysql_url'', mysqlUrl s) \<in> set (text_parameters r)))
   \<and> mysqlUrl constructor \<noteq> []
   \<and> (mysqlUrl (service_after ops) = [] \<longrightarrow> SetMySqlUrl [] \<in> set ops)"
  using invoke_empty_url [of s c] invoke_nonempty_url [of s c] empty_url_needs_set [of ops]
  by (auto simp: constructor_def)

theorem every_method_guards_mysql_url_witness:
  "mysqlUrl (service_after [Invoke GetAllPatients, SetMySqlUrl []]) = []
   \<and> invoke (service_after [Invoke GetAllPatients, SetMySqlUrl []]) (GetPatientEMR ''p1'') =
       Inl (Error ''MySQL URL is not set'')
   \<and> SetMySqlUrl [] \<in> set [Invoke GetAllPatients, SetMySqlUrl []]
   \<and> mysqlUrl constructor \<noteq> []
   \<and> (\<exists>r. invoke constructor (UploadFiles []) = Inr r
          \<and> (''mysql_url'', mysqlUrl constructor) \<in> set (text_parameters r))"
  using
    every_method_guards_mysql_url
      [of "service_after [Invoke GetAllPatients, SetMySqlUrl []]" "GetPatientEMR ''p1''"
          "[Invoke GetAllPatients, SetMySqlUrl []]"]
    every_method_guards_mysql_url [of constructor "UploadFiles []" "[]"]
  by (simp add: service_after_def setMySqlUrl_def constructor_def)

text \<open>
  C9. For every string \<open>u\<close>, \<^verbatim>\<open>getMySqlUrl()\<close> after \<^verbatim>\<open>setMySqlUrl(u)\<close> returns \<open>u\<close>, and
  \<^verbatim>\<open>setMySqlUrl\<close> leaves the other field of the service, the base URL, as it was.
\<close>

theorem getMySqlUrl_after_setMySqlUrl:
  "getMySqlUrl (setMySqlUrl u s) = u \<and> baseUrl (setMySqlUrl u s) = baseUrl s"
  by (simp add: getMySqlUrl_def setMySqlUrl_def)

section \<open>Properties of the upload view\<close>

lemma foldl_append_entries:
  "foldl (\<lambda>fd x. fd @ [(k, g x)]) acc xs = acc @ map (\<lambda>x. (k, g x)) xs"
  by (induction xs arbitrary: acc) simp_all

text \<open>
  C4, as stated, fails: with a file selected and an empty MySQL URL in the service,
  the service throws before a request exists.
\<close>

theorem upload_with_empty_mysql_url_sends_nothing:
  "snd (UploadComponent_uploadFiles (setMySqlUrl [] constructor)
          (onFileSelected (Some [\<lparr>file_name = ''a.json'', file_bytes = ''{}''\<rparr>])
             UploadComponent_new))
     = Thrown (Error ''MySQL URL is not set'')"
  by (simp add: UploadComponent_uploadFiles_def uploadFiles_def setMySqlUrl_def
      onFileSelected_def UploadComponent_new_def constructor_def Let_def truthy_def)

text \<open>
  C4, amended. For every upload invocation with at least one selected file or
  directory file, and a non-empty MySQL URL stored in the service, the request is a
  POST to the \<^verbatim>\<open>/upload\<close> endpoint whose form holds every selected file and then every
  directory file, each under the key \<^verbatim>\<open>files\<close> with its own name, followed by the
  stored MySQL URL under the key \<^verbatim>\<open>mysql_url\<close>, and nothing else.
\<close>

theorem upload_request_holds_every_file_and_mysql_url:
  assumes "(\<exists>fs. selectedFiles c = Some fs \<and> fs \<noteq> []) \<or> directoryFiles c \<noteq> []"
    and "mysqlUrl svc \<noteq> []"
  shows "snd (UploadComponent_uploadFiles svc c) =
     Subscribed (Post (baseUrl svc @ ''/upload'')
       (map (\<lambda>f. (''files'', FileValue f (file_name f)))
          ((case selectedFiles c of None \<Rightarrow> [] | Some fs \<Rightarrow> fs) @ directoryFiles c)
        @ [(''mysql_url'', TextValue (mysqlUrl svc))]))"
  using assms
  by (auto simp: UploadComponent_uploadFiles_def uploadFiles_def foldl_append_entries
      formData_append_def Let_def truthy_def split: option.splits)

theorem upload_request_holds_every_file_and_mysql_url_witness:
  "selectedFiles
     (onDirectorySelected [\<lparr>file_name = ''b.json'', file_bytes = ''[]''\<rparr>]
        (onFileSelected (Some [\<lparr>file_name = ''a.json'', file_bytes = ''{}''\<rparr>])
           UploadComponent_new))
     = Some [\<lparr>file_name = ''a.json'', file_bytes = ''{}''\<rparr>]
   \<and> mysqlUrl constructor \<noteq> []
   \<and> snd (UploadComponent_uploadFiles constructor
        (onDirectorySelected [\<lparr>file_name = ''b.json'', file_bytes = ''[]''\<rparr>]
           (onFileSelected (Some [\<lparr>file_name = ''a.json'', file_bytes = ''{}''\<rparr>])
              UploadComponent_new)))
     = Subscribed (Post ''http://127.0.0.1:5000/upload''
         [(''files'', FileValue \<lparr>file_name = ''a.json'', file_bytes = ''{}''\<rparr> ''a.json''),
          (''files'', FileValue \<lparr>file_name = ''b.json'', file_bytes = ''[]''\<rparr> ''b.json''),
          (''mysql_url'', TextValue ''mysql+pymysql://root@localhost:3306/healthcare_db'')])"
  using upload_request_holds_every_file_and_mysql_url
    [of "onDirectorySelected [\<lparr>file_name = ''b.json'', file_bytes = ''[]''\<rparr>]
           (onFileSelected (Some [\<lparr>file_name = ''a.json'', file_bytes = ''{}''\<rparr>])
              UploadComponent_new)"
        constructor]
  by (simp add: onDirectorySelected_def onFileSelected_def UploadComponent_new_def
      constructor_def)

text \<open>
  With \<^verbatim>\<open>selectedFiles\<close> equal to \<^verbatim>\<open>null\<close> and no directory file, the call sends
  nothing and only sets the message.
\<close>

lemma upload_without_selection:
  "selectedFiles c = None \<Longrightarrow> directoryFiles c = [] \<Longrightarrow>
   UploadComponent_uploadFiles svc c =
     (c\<lparr>uploadMessage := ''Please select files to upload.''\<rparr>, NoRequest)"
  by (simp add: UploadComponent_uploadFiles_def truthy_def)

text \<open>
  C10. With no selected file and no directory file, \<^verbatim>\<open>uploadFiles\<close> should send no
  request and only set the message. The code does so when \<^verbatim>\<open>selectedFiles\<close> is
  \<^verbatim>\<open>null\<close>, and does not when it is a \<^verbatim>\<open>FileList\<close> without files: the guard tests
  \<^verbatim>\<open>this.selectedFiles\<close> for truthiness, where it tests the directory files by their
  number. Then \<^verbatim>\<open>isUploading\<close> becomes true, the message stays as it was, and a
  request that holds only the MySQL URL is posted.
\<close>

theorem upload_with_empty_FileList_posts_request:
  "UploadComponent_uploadFiles constructor (onFileSelected (Some []) UploadComponent_new) =
     (\<lparr>selectedFiles = Some [], directoryFiles = [], isUploading = True, uploadMessage = []\<rparr>,
      Subscribed (Post ''http://127.0.0.1:5000/upload''
        [(''mysql_url'', TextValue ''mysql+pymysql://root@localhost:3306/healthcare_db'')]))"
  by (simp add: UploadComponent_uploadFiles_def uploadFiles_def formData_append_def
      onFileSelected_def UploadComponent_new_def constructor_def Let_def truthy_def)

section \<open>Properties of the EMR view\<close>

lemmas emr_fetch_defs =
  fetchPatientDetails_def fetchPatientEncounters_def fetchObservations_def
  fetchImmunizations_def fetchCarePlans_def fetchConditions_def fetchMedicationRequests_def
  viewEncounterDetails_def subscribe_into_def params_set_def

text \<open>
  C5, as stated, fails: with a patient id in the route and an empty MySQL URL in
  the service, the first fetch throws and no request is issued.
\<close>

theorem emr_with_empty_mysql_url_fetches_nothing:
  "EmrComponent_ngOnInit (setMySqlUrl [] constructor) (Some ''p1'') =
     ([], Some (Error ''MySQL URL is not set''))"
  by (simp add: EmrComponent_ngOnInit_def emr_fetch_defs service_method_defs
      setMySqlUrl_def constructor_def)

text \<open>
  C5, amended. For every patient id present in the route (a non-empty string), and a
  non-empty MySQL URL stored in the service, the EMR view fetches the patient's
  detail record and each of the six per-patient lists (encounters, observations,
  immunizations, careplans, conditions, medication requests), each by this patient
  id and into its own field; one encounter's detail is fetched by encounter id; and
  with no patient id in the route no fetch is issued.
\<close>

theorem emr_fetches_patient_and_six_lists:
  assumes "patientId \<noteq> []" and "mysqlUrl svc \<noteq> []"
  shows "EmrComponent_ngOnInit svc (Some patientId) =
      ([(Get (baseUrl svc @ ''/search_patient'')
           [(''mysql_url'', mysqlUrl svc), (''patient_id'', patientId)], F_patient),
        (Get (baseUrl svc @ ''/get_user_encounters'')
           [(''mysql_url'', mysqlUrl svc), (''patient_id'', patientId)], F_encounters),
        (Get (baseUrl svc @ ''/observations/patient'')
           [(''mysql_url'', mysqlUrl svc), (''patient_id'', patientId)], F_observations),
        (Get (baseUrl svc @ ''/immunizations/patient'')
           [(''mysql_url'', mysqlUrl svc), (''patient_id'', patientId)], F_immunizations),
        (Get (baseUrl svc @ ''/careplans/patient'')
           [(''mysql_url'', mysqlUrl svc), (''patient_id'', patientId)], F_carePlans),
        (Get (baseUrl svc @ ''/conditions/patient'')
           [(''mysql_url'', mysqlUrl svc), (''patient_id'', patientId)], F_conditions),
        (Get (baseUrl svc @ ''/medication-requests/patient'')
           [(''mysql_url'', mysqlUrl svc), (''patient_id'', patientId)], F_medicationRequests)],
       None)
    \<and> viewEncounterDetails svc encounterId =
        Inr (Get (baseUrl svc @ ''/get_encounter_details'')
               [(''mysql_url'', mysqlUrl svc), (''encounter_id'', encounterId)],
             F_encounterDetails)
    \<and> EmrComponent_ngOnInit svc None = ([], None)"
  using assms by (simp add: EmrComponent_ngOnInit_def emr_fetch_defs service_method_defs)

theorem emr_fetches_patient_and_six_lists_witness:
  "''p1'' \<noteq> [] \<and> mysqlUrl constructor \<noteq> []
   \<and> map snd (fst (EmrComponent_ngOnInit constructor (Some ''p1''))) =
       [F_patient, F_encounters, F_observations, F_immunizations, F_carePlans,
        F_conditions, F_medicationRequests]
   \<and> snd (EmrComponent_ngOnInit constructor (Some ''p1'')) = None
   \<and> viewEncounterDetails constructor ''e7'' =
        Inr (Get ''http://127.0.0.1:5000/get_encounter_details''
               [(''mysql_url'', ''mysql+pymysql://root@localhost:3306/healthcare_db''),
                (''encounter_id'', ''e7'')],
             F_encounterDetails)"
  using emr_fetches_patient_and_six_lists [of "''p1''" constructor "''e7''"]
  by (simp add: constructor_def)

section \<open>Properties of the patients view\<close>

lemma in_capital_letters:
  "n \<in> set capital_letters \<longleftrightarrow> (65 \<le> n \<and> n \<le> 90) \<or> (192 \<le> n \<and> n \<le> 222 \<and> n \<noteq> 215)"
proof -
  have "n \<in> set capital_letters \<longleftrightarrow> n \<in> {65..<91} \<union> {192..<215} \<union> {216..<223}"
    unfolding capital_letters_def set_append set_upt by blast
  then show ?thesis
    by (simp only: Un_iff atLeastLessThan_iff) arith
qed

lemma in_letter_cases:
  "(c, d) \<in> set letter_cases \<longleftrightarrow>
     ((65 \<le> (of_char c :: nat) \<and> (of_char c :: nat) \<le> 90)
      \<or> (192 \<le> (of_char c :: nat) \<and> (of_char c :: nat) \<le> 222 \<and> (of_char c :: nat) \<noteq> 215))
     \<and> (of_char d :: nat) = of_char c + 32"
proof -
  have "(c, d) \<in> set letter_cases \<longleftrightarrow>
      (\<exists>n \<in> set capital_letters. c = char_of n \<and> d = char_of (n + 32))"
    by (auto simp: letter_cases_def)
  also have "\<dots> \<longleftrightarrow> (of_char c :: nat) \<in> set capital_letters \<and> (of_char d :: nat) = of_char c + 32"
  proof
    assume "\<exists>n \<in> set capital_letters. c = char_of n \<and> d = char_of (n + 32)"
    then obtain n where n: "n \<in> set capital_letters" "c = char_of n" "d = char_of (n + 32)"
      by blast
    from n(1) have "n < 223" by (simp only: in_capital_letters) arith
    then have "(of_char c :: nat) = n" "(of_char d :: nat) = n + 32"
      using n(2,3) by simp_all
    with n(1) show "(of_char c :: nat) \<in> set capital_letters \<and> (of_char d :: nat) = of_char c + 32"
      by simp
  next
    assume a: "(of_char c :: nat) \<in> set capital_letters \<and> (of_char d :: nat) = of_char c + 32"
    then have "d = char_of ((of_char c :: nat) + 32)"
      by (metis char_of_char)
    with a show "\<exists>n \<in> set capital_letters. c = char_of n \<and> d = char_of (n + 32)"
      by (intro bexI [of _ "of_char c"]) simp_all
  qed
  also have "(of_char c :: nat) \<in> set capital_letters \<longleftrightarrow>
      ((65 \<le> (of_char c :: nat) \<and> (of_char c :: nat) \<le> 90)
      \<or> (192 \<le> (of_char c :: nat) \<and> (of_char c :: nat) \<le> 222 \<and> (of_char c :: nat) \<noteq> 215))"
    by (rule in_capital_letters)
  finally show ?thesis .
qed








text \<open>
  The lower-casing and the comparison at work: accented capitals are lowered, the
  multiplication sign and the sharp s are kept, and the filter finds a query given
  in the other case, at any position.
\<close>

lemma toLowerCase_examples:
  "toLowerCase ''Ann LEE'' = ''ann lee'' \<and> toLowerCase [CHR 0xC9] = [CHR 0xE9]
   \<and> toLowerCase [CHR 0xD7, CHR 0xDF] = [CHR 0xD7, CHR 0xDF]"
  by code_simp

lemma same_ignoring_case_examples:
  "same_ignoring_case CHR ''A'' CHR ''a'' \<and> same_ignoring_case CHR 0xE9 CHR 0xC9
   \<and> \<not> same_ignoring_case CHR ''a'' CHR ''b'' \<and> \<not> same_ignoring_case CHR 0xD7 CHR 0xF7
   \<and> \<not> same_ignoring_case CHR ''@'' CHR 0x60"
  by (simp add: same_ignoring_case_def in_letter_cases)

lemma filteredPatients_example:
  "filteredPatients
     [\<lparr>full_name = ''Ann Lee''\<rparr>, \<lparr>full_name = ''Bob''\<rparr>, \<lparr>full_name = ''LeeAnn''\<rparr>]
     (Some ''LEE'')
   = [\<lparr>full_name = ''Ann Lee''\<rparr>, \<lparr>full_name = ''LeeAnn''\<rparr>]"
  by code_simp

lemma filteredPatients_accented_example:
  "filteredPatients
     [\<lparr>full_name = CHR 0xC9 # ''lodie''\<rparr>, \<lparr>full_name = ''elodie''\<rparr>,
      \<lparr>full_name = ''Ren'' @ [CHR 0xE9, CHR ''e'']\<rparr>]
     (Some [CHR 0xE9])
   = [\<lparr>full_name = CHR 0xC9 # ''lodie''\<rparr>, \<lparr>full_name = ''Ren'' @ [CHR 0xE9, CHR ''e'']\<rparr>]"
  by code_simp

lemma child_types_all: "set child_types = UNIV - {Patient}"
proof -
  have "x \<in> set child_types \<longleftrightarrow> x \<noteq> Patient" for x
    by (cases x) (simp_all add: child_types_def)
  then show ?thesis by auto
qed

text \<open>
  C3. The columns of the patient table are the patient's id, full name, birth date,
  gender and deceased datetime, followed by one count column per child entity type:
  exactly seven, for encounters, conditions, observations, medication requests,
  procedures, immunizations and careplans. No column occurs twice.
\<close>

theorem displayedColumns_five_fields_and_seven_counts:
  "map Some (filter is_count_column displayedColumns) = map count_column_of child_types
   \<and> length child_types = 7
   \<and> distinct child_types
   \<and> set child_types = UNIV - {Patient}
   \<and> filter (\<lambda>c. \<not> is_count_column c) displayedColumns =
       [''patient_id'', ''full_name'', ''birth_date'', ''gender'', ''deceased_datetime'']
   \<and> distinct displayedColumns"
  by (simp add: child_types_all)
     (simp add: displayedColumns_def child_types_def is_count_column_def suffix_def)

section \<open>Properties of the population dashboard\<close>

subsection \<open>Decimal digits\<close>

declare show_nat.simps [simp del]

lemma digit_chars: "is_digit c \<longleftrightarrow> 48 \<le> (of_char c :: nat) \<and> (of_char c :: nat) \<le> 57"
proof -
  have "''0123456789'' = map char_of [48 ..< 58 :: nat]"
    by code_simp
  then have "is_digit c \<longleftrightarrow> (\<exists>n \<in> {48 ..< 58 :: nat}. c = char_of n)"
    unfolding is_digit_def by (simp only: set_map set_upt) blast
  also have "\<dots> \<longleftrightarrow> 48 \<le> (of_char c :: nat) \<and> (of_char c :: nat) \<le> 57"
  proof
    assume "\<exists>n \<in> {48 ..< 58 :: nat}. c = char_of n"
    then obtain n :: nat where "48 \<le> n" "n < 58" "c = char_of n" by auto
    then show "48 \<le> (of_char c :: nat) \<and> (of_char c :: nat) \<le> 57" by simp
  next
    assume "48 \<le> (of_char c :: nat) \<and> (of_char c :: nat) \<le> 57"
    then show "\<exists>n \<in> {48 ..< 58 :: nat}. c = char_of n"
      by (intro bexI [of _ "of_char c"]) simp_all
  qed
  finally show ?thesis .
qed

lemma of_char_zero: "(of_char CHR ''0'' :: nat) = 48"
  by simp

lemma of_char_digit: "d < 10 \<Longrightarrow> (of_char (char_of (48 + d :: nat)) :: nat) = 48 + d"
  by simp

lemma digits_value_snoc:
  "digits_value acc (s @ [c]) = 10 * digits_value acc s + (of_char c - of_char CHR ''0'')"
  by (induction s arbitrary: acc) simp_all

lemma show_nat_digits: "list_all is_digit (show_nat n)"
proof (induction n rule: show_nat.induct)
  case (1 n)
  show ?case
  proof (cases "n < 10")
    case True
    then show ?thesis by (subst show_nat.simps) (simp add: digit_chars)
  next
    case False
    have "n mod 10 < 10" by simp
    then have "is_digit (char_of (48 + n mod 10))"
      unfolding digit_chars using of_char_digit [of "n mod 10"] by simp
    then show ?thesis
      using False 1 by (subst show_nat.simps) simp
  qed
qed

lemma show_nat_nonempty: "show_nat n \<noteq> []"
  by (subst show_nat.simps) simp

lemma show_nat_value: "digits_value 0 (show_nat n) = n"
proof (induction n rule: show_nat.induct)
  case (1 n)
  show ?case
  proof (cases "n < 10")
    case True
    then show ?thesis by (subst show_nat.simps) simp
  next
    case False
    have "n mod 10 < 10" by simp
    then have "(of_char (char_of (48 + n mod 10)) :: nat) - of_char CHR ''0'' = n mod 10"
      using of_char_digit [of "n mod 10"] by simp
    then show ?thesis
      using False 1 by (subst show_nat.simps) (simp add: digits_value_snoc)
  qed
qed

lemma show_nat_zero: "show_nat 0 = ''0''"
  by code_simp

lemma show_nat_no_leading_zero: "0 < n \<Longrightarrow> hd (show_nat n) \<noteq> CHR ''0''"
proof (induction n rule: show_nat.induct)
  case (1 n)
  show ?case
  proof (cases "n < 10")
    case True
    have "(of_char (char_of (48 + n)) :: nat) \<noteq> of_char CHR ''0''"
      using True "1.prems" by simp
    then have "char_of (48 + n) \<noteq> CHR ''0''" by fastforce
    then show ?thesis using True by (subst show_nat.simps) simp
  next
    case False
    then have "0 < n div 10" by simp
    with 1 False have "hd (show_nat (n div 10)) \<noteq> CHR ''0''" by simp
    then show ?thesis
      using False show_nat_nonempty [of "n div 10"] by (subst show_nat.simps) simp
  qed
qed

lemma natural_numeral_show_nat: "natural_numeral (show_nat n) = Some n"
proof (cases "n = 0")
  case True
  then show ?thesis
    by (simp add: natural_numeral_def show_nat_value show_nat_digits show_nat_zero [symmetric]
        show_nat_nonempty)
next
  case False
  then have "hd (show_nat n) \<noteq> CHR ''0''" by (simp add: show_nat_no_leading_zero)
  then show ?thesis
    by (simp add: natural_numeral_def show_nat_value show_nat_digits show_nat_nonempty)
qed

lemma show_nat_no_minus: "hd (show_nat n) \<noteq> CHR ''-''"
proof -
  have "is_digit (hd (show_nat n))"
    using show_nat_digits [of n] show_nat_nonempty [of n]
    by (cases "show_nat n") simp_all
  then show ?thesis by (auto simp: digit_chars)
qed

lemma numeral_value_show_int: "numeral_value (show_int i) = Some i"
proof (cases "i < 0")
  case True
  then show ?thesis
    by (simp add: numeral_value_def show_int_def natural_numeral_show_nat)
next
  case False
  obtain c rest where s: "show_nat (nat i) = c # rest"
    using show_nat_nonempty [of "nat i"] by (cases "show_nat (nat i)") auto
  with show_nat_no_minus [of "nat i"] have "c \<noteq> CHR ''-''" by simp
  then have "numeral_value (show_nat (nat i)) = map_option int (natural_numeral (show_nat (nat i)))"
    using s by (simp add: numeral_value_def)
  then show ?thesis
    using False by (simp add: show_int_def natural_numeral_show_nat)
qed

lemma year_month_numeral:
  "safe_integer y \<Longrightarrow> safe_integer m \<Longrightarrow>
   \<exists>ys ms. year_month other \<lparr>year = Num y, month = Num m, \<dots> = z\<rparr> = Str (ys @ ''-'' @ ms)
      \<and> numeral_value ys = Some y \<and> numeral_value ms = Some m"
  by (intro exI [of _ "show_int y"] exI [of _ "show_int m"])
     (simp add: year_month_def numeral_value_show_int)

subsection \<open>The charts\<close>

text \<open>
  C2. The dashboard draws exactly six charts: gender distribution, conditions by
  category, immunizations over time, encounters over time, medication status
  distribution and top conditions. Labels and data of each come from the
  corresponding field of the response, item by item. A label of the two time series
  is the year, a hyphen and the month: for a year and a month that are safe
  integers, it reads back, as decimal numerals, as this year and this month.
\<close>

theorem createCharts_draws_the_six_aggregates:
  "map canvas (createCharts other d) =
     [''genderChart'', ''conditionsCategoryChart'', ''immunizationChart'',
      ''encounterChart'', ''medicationStatusChart'', ''topConditionsChart'']
   \<and> map labels (createCharts other d) =
     [map gender (patients_by_gender d),
      map code_text (conditions_by_category d),
      map (year_month other) (immunization_over_time d),
      map (year_month other) (encounters_over_time d),
      map status (medication_status_distribution d),
      map code_text (top_conditions d)]
   \<and> map (map data \<circ> datasets) (createCharts other d) =
     [[map patient_count (patients_by_gender d)],
      [map condition_count (conditions_by_category d)],
      [map immunization_count (immunization_over_time d)],
      [map encounter_count (encounters_over_time d)],
      [map medication_count (medication_status_distribution d)],
      [map condition_count (top_conditions d)]]
   \<and> (safe_integer y \<and> safe_integer m \<longrightarrow>
        (\<exists>ys ms. year_month other \<lparr>year = Num y, month = Num m, \<dots> = z\<rparr> = Str (ys @ ''-'' @ ms)
           \<and> numeral_value ys = Some y \<and> numeral_value ms = Some m))
   \<and> snd (loadDashboardData_next other (Some d)) = createCharts other d"
  using year_month_numeral [of y m other z]
  by (simp add: createCharts_def genderChart_def conditionsCategoryChart_def
      immunizationChart_def encounterChart_def medicationStatusChart_def
      topConditionsChart_def loadDashboardData_next_def)

theorem createCharts_draws_the_six_aggregates_witness:
  "safe_integer 2020 \<and> safe_integer 3
   \<and> map labels (createCharts (\<lambda>v. []) sample_response) =
       [[Str ''female'', Str ''male''], [Str ''Asthma''],
        [Str ''2019-12'', Str ''2020-3''], [Str ''2020-3''], [Str ''active''], [Null]]
   \<and> map (map data \<circ> datasets) (createCharts (\<lambda>v. []) sample_response) =
       [[[Num 7, Num 5]], [[Num 3]], [[Num 4, Num 9]], [[Num 11]], [[Num 2]], [[Num 1]]]
   \<and> numeral_value ''2020'' = Some 2020 \<and> numeral_value ''3'' = Some 3
   \<and> numeral_value ''03'' = None \<and> numeral_value [] = None
   \<and> (\<exists>ys ms. year_month (\<lambda>v. []) \<lparr>year = Num 2020, month = Num 3 :: unit jsvalue\<rparr>
          = Str (ys @ ''-'' @ ms)
        \<and> numeral_value ys = Some 2020 \<and> numeral_value ms = Some 3)"
proof -
  have s: "safe_integer 2020" "safe_integer 3" by (simp_all add: safe_integer_def)
  have l: "map labels (createCharts (\<lambda>v. []) sample_response) =
       [[Str ''female'', Str ''male''], [Str ''Asthma''],
        [Str ''2019-12'', Str ''2020-3''], [Str ''2020-3''], [Str ''active''], [Null]]"
    by code_simp
  have d: "map (map data \<circ> datasets) (createCharts (\<lambda>v. []) sample_response) =
       [[[Num 7, Num 5]], [[Num 3]], [[Num 4, Num 9]], [[Num 11]], [[Num 2]], [[Num 1]]]"
    by code_simp
  have n: "numeral_value ''2020'' = Some 2020" "numeral_value ''3'' = Some 3"
    "numeral_value ''03'' = None" "numeral_value [] = None"
    by code_simp+
  show ?thesis
    using s l d n
      createCharts_draws_the_six_aggregates
        [of "\<lambda>v. []" sample_response 2020 3 "()"]
    by simp
qed

section \<open>Properties of the ingestion engine\<close>

subsection \<open>Upsert and load\<close>

lemma keys_upsert: "key_of ` set (upsert r s) = insert (key_of r) (key_of ` set s)"
  by (induction s) auto

lemma distinct_upsert: "distinct (map key_of s) \<Longrightarrow> distinct (map key_of (upsert r s))"
  by (induction s) (auto simp: keys_upsert)

lemma keys_load: "key_of ` set (load rs s) = key_of ` set rs \<union> key_of ` set s"
  by (induction rs arbitrary: s) (auto simp: keys_upsert)

lemma distinct_load: "distinct (map key_of s) \<Longrightarrow> distinct (map key_of (load rs s))"
  by (induction rs arbitrary: s) (simp_all add: distinct_upsert)

lemma upsert_same_key: "key_of r = key_of r' \<Longrightarrow> upsert r (upsert r' s) = upsert r s"
  by (induction s) auto

lemma upsert_swap:
  "key_of r \<noteq> key_of x \<Longrightarrow> key_of r \<in> key_of ` set s \<Longrightarrow>
   upsert x (upsert r s) = upsert r (upsert x s)"
  by (induction s) auto

lemma load_absorbs_upsert:
  "key_of r \<in> key_of ` set rs \<Longrightarrow> key_of r \<in> key_of ` set s \<Longrightarrow>
   load rs (upsert r s) = load rs s"
proof (induction rs arbitrary: s)
  case Nil
  then show ?case by simp
next
  case (Cons x xs)
  show ?case
  proof (cases "key_of x = key_of r")
    case True
    then show ?thesis by (simp add: upsert_same_key)
  next
    case False
    with Cons.prems have in_xs: "key_of r \<in> key_of ` set xs" by auto
    have in_s: "key_of r \<in> key_of ` set (upsert x s)"
      using Cons.prems(2) by (simp add: keys_upsert)
    have "upsert x (upsert r s) = upsert r (upsert x s)"
      using False Cons.prems(2) by (simp add: upsert_swap)
    then show ?thesis using Cons.IH [OF in_xs in_s] by simp
  qed
qed

lemma row_at_upsert: "row_at k (upsert r s) = (if key_of r = k then Some r else row_at k s)"
  by (induction s) (auto simp: row_at_def)

lemma row_at_load_other:
  "k \<notin> key_of ` set rs \<Longrightarrow> row_at k (load rs s) = row_at k s"
  by (induction rs arbitrary: s) (auto simp: row_at_upsert)

lemma upsert_present: "row_at (key_of r) s = Some r \<Longrightarrow> upsert r s = s"
  by (induction s) (auto simp: row_at_def split: if_splits)

lemma load_idem: "load rs (load rs s) = load rs s"
proof (induction rs arbitrary: s)
  case Nil
  then show ?case by simp
next
  case (Cons r rs)
  let ?u = "upsert r s"
  have in_u: "key_of r \<in> key_of ` set (load rs ?u)"
    by (simp add: keys_load keys_upsert)
  have "load rs (upsert r (load rs ?u)) = load rs (load rs ?u)"
  proof (cases "key_of r \<in> key_of ` set rs")
    case True
    then show ?thesis using in_u by (rule load_absorbs_upsert)
  next
    case False
    then have "row_at (key_of r) (load rs ?u) = Some r"
      by (simp add: row_at_load_other row_at_upsert)
    then show ?thesis by (simp add: upsert_present)
  qed
  then show ?case using Cons.IH [of ?u] by simp
qed

lemma resolve_cong: "set known = set known' \<Longrightarrow> resolve known d = resolve known' d"
  by (simp add: resolve_def)

lemma key_of_resolve: "key_of (resolve known d) = draft_key d"
  by (simp add: key_of_def resolve_def draft_key_def)

lemma keys_batch_rows:
  "key_of ` set (batch_rows b s) = draft_key ` set (map snd (batch_drafts b))"
proof -
  let ?ds = "map snd (batch_drafts b)"
  have "set (filter (\<lambda>d. draft_type d = Patient) ?ds @ filter (\<lambda>d. draft_type d \<noteq> Patient) ?ds)
          = set ?ds"
    by auto
  then have "set (batch_rows b s) = resolve (known_keys b s) ` set ?ds"
    unfolding batch_rows_def Let_def by (simp only: set_map)
  then show ?thesis
    by (simp add: image_image key_of_resolve)
qed

lemma known_keys_after_load:
  "set (known_keys b (load (batch_rows b s) s)) = set (known_keys b s)"
  using keys_load [of "batch_rows b s" s] keys_batch_rows [of b s]
  by (auto simp: known_keys_def)

lemma batch_rows_after_load: "batch_rows b (load (batch_rows b s) s) = batch_rows b s"
  using resolve_cong [OF known_keys_after_load [of b s]]
  by (simp add: batch_rows_def Let_def)

lemma fst_ingest: "fst (ingest b s) = load (batch_rows b s) s"
  by (simp add: ingest_def Let_def)

lemma distinct_ingest_all:
  "distinct (map key_of s) \<Longrightarrow> distinct (map key_of (ingest_all bs s))"
  by (induction bs arbitrary: s) (simp_all add: ingest_all_def fst_ingest distinct_load)

text \<open>
  C6. Ingesting a batch a second time leaves the store as the first ingestion left
  it: the same rows, in number and in every field. Ingestion keeps a store free of
  duplicate keys, so no store built from the empty one by ingestions ever holds two
  rows of one (type, id) key.
\<close>

theorem ingest_twice_is_ingest_once:
  "fst (ingest batch (fst (ingest batch store))) = fst (ingest batch store)
   \<and> (distinct (map key_of store) \<longrightarrow> distinct (map key_of (fst (ingest batch store))))
   \<and> distinct (map key_of (ingest_all batches []))"
  using distinct_ingest_all [of "[]" batches]
  by (simp add: fst_ingest batch_rows_after_load load_idem distinct_load)

theorem ingest_twice_is_ingest_once_witness:
  "distinct (map key_of ([] :: row list))
   \<and> fst (ingest repeated_patient_batch []) =
       [\<lparr>row_type = Patient, row_id = ''p1'',
          row_fields = [(''birth_date'', Some ''1981-02-01'')],
          row_references = [], flagged = False\<rparr>,
        \<lparr>row_type = Encounter, row_id = ''e1'',
          row_fields = [(''status'', Some ''finished'')],
          row_references = [(Patient, Some ''p1'')], flagged = False\<rparr>]
   \<and> fst (ingest repeated_patient_batch (fst (ingest repeated_patient_batch []))) =
       fst (ingest repeated_patient_batch [])
   \<and> distinct (map key_of (fst (ingest repeated_patient_batch [])))"
proof -
  have a: "distinct (map key_of ([] :: row list))" by simp
  have b: "fst (ingest repeated_patient_batch []) =
       [\<lparr>row_type = Patient, row_id = ''p1'',
          row_fields = [(''birth_date'', Some ''1981-02-01'')],
          row_references = [], flagged = False\<rparr>,
        \<lparr>row_type = Encounter, row_id = ''e1'',
          row_fields = [(''status'', Some ''finished'')],
          row_references = [(Patient, Some ''p1'')], flagged = False\<rparr>]"
    by code_simp
  show ?thesis
    using a b ingest_twice_is_ingest_once [of repeated_patient_batch "[]" "[]"] by blast
qed

subsection \<open>Fault isolation\<close>

lemma transform_not_DecodeError: "transform doc \<noteq> Inl DecodeError"
  by (simp add: transform_def split: option.splits)

lemma decode_errors_of_problems:
  "length (filter is_DecodeError (problems_of (enumerate n (map read_document b))))
     = length (filter malformed b)"
proof (induction b arbitrary: n)
  case Nil
  then show ?case by simp
next
  case (Cons d ds)
  show ?case
  proof (cases d)
    case Malformed
    then show ?thesis
      using Cons.IH by (simp add: read_document_def malformed_def is_DecodeError_def)
  next
    case (Decoded doc)
    show ?thesis
    proof (cases "transform doc")
      case (Inl e)
      then have "e \<noteq> DecodeError" using transform_not_DecodeError [of doc] by auto
      then have "\<not> is_DecodeError (n, e)" by (cases e) (simp_all add: is_DecodeError_def)
      then show ?thesis
        using Cons.IH Decoded Inl by (simp add: read_document_def malformed_def)
    next
      case (Inr dr)
      then show ?thesis
        using Cons.IH Decoded by (simp add: read_document_def malformed_def)
    qed
  qed
qed

lemma no_decode_error_unresolved:
  "filter is_DecodeError (concat (map (unresolved known) ds)) = []"
  by (induction ds) (auto simp: unresolved_def is_DecodeError_def)

lemma decode_errors_of_ingest:
  "length (filter is_DecodeError (issues (snd (ingest b s)))) = length (filter malformed b)"
  by (simp add: ingest_def Let_def decode_errors_of_problems no_decode_error_unresolved)

lemma length_drafts_of:
  "length (drafts_of (enumerate n (map read_document b))) = length (filter valid b)"
proof (induction b arbitrary: n)
  case Nil
  then show ?case by simp
next
  case (Cons d ds)
  then show ?case by (cases "read_document d") (simp_all add: valid_def)
qed

lemma length_two_passes:
  "length (filter P ds @ filter (\<lambda>d. \<not> P d) ds) = length ds"
  by (simp add: sum_length_filter_compl)

lemma length_batch_rows: "length (batch_rows b s) = length (filter valid b)"
  unfolding batch_rows_def Let_def
  by (simp only: length_two_passes length_map batch_drafts_def length_drafts_of)

lemma length_upsert: "length (upsert r s) = (if key_of r \<in> key_of ` set s then length s else Suc (length s))"
  by (induction s) auto

lemma length_load_bounds:
  "length s \<le> length (load rs s) \<and> length (load rs s) \<le> length s + length rs"
proof (induction rs arbitrary: s)
  case Nil
  then show ?case by simp
next
  case (Cons r rs)
  have "length s \<le> length (upsert r s)" "length (upsert r s) \<le> Suc (length s)"
    by (simp_all add: length_upsert)
  then show ?case using Cons.IH [of "upsert r s"] by auto
qed

lemma created_plus_updated:
  "created (snd (ingest b s)) + updated (snd (ingest b s)) = length (batch_rows b s)"
  using length_load_bounds [of s "batch_rows b s"] by (simp add: ingest_def Let_def)

lemma skipped_ingest: "skipped (snd (ingest b s)) = length b - length (batch_rows b s)"
  by (simp add: ingest_def Let_def)

lemma set_drafts_of:
  "snd ` set (drafts_of (enumerate n (map read_document b)))
     = {dr. \<exists>d \<in> set b. read_document d = Inr dr}"
proof (induction b arbitrary: n)
  case Nil
  then show ?case by simp
next
  case (Cons d ds)
  then show ?case by (cases "read_document d") auto
qed

lemma document_row_Some:
  "document_row known d = Some r \<longleftrightarrow> (\<exists>dr. read_document d = Inr dr \<and> r = resolve known dr)"
  by (cases "read_document d") (auto simp: document_row_def)

lemma set_batch_rows:
  "set (batch_rows b s) = {r. \<exists>d \<in> set b. document_row (known_keys b s) d = Some r}"
proof -
  let ?ds = "map snd (batch_drafts b)"
  have "set (filter (\<lambda>d. draft_type d = Patient) ?ds @ filter (\<lambda>d. draft_type d \<noteq> Patient) ?ds)
          = set ?ds"
    by auto
  then have "set (batch_rows b s) = resolve (known_keys b s) ` set ?ds"
    unfolding batch_rows_def Let_def by (simp only: set_map)
  also have "set ?ds = {dr. \<exists>d \<in> set b. read_document d = Inr dr}"
    using set_drafts_of [of 0 b] by (simp add: batch_drafts_def)
  finally have "set (batch_rows b s) =
      resolve (known_keys b s) ` {dr. \<exists>d \<in> set b. read_document d = Inr dr}" .
  then show ?thesis
    unfolding document_row_Some by blast
qed

lemma row_at_load_distinct:
  "distinct (map key_of rs) \<Longrightarrow> r \<in> set rs \<Longrightarrow> row_at (key_of r) (load rs s) = Some r"
proof (induction rs arbitrary: s)
  case Nil
  then show ?case by simp
next
  case (Cons x xs)
  show ?case
  proof (cases "r = x")
    case True
    then show ?thesis using Cons.prems(1) by (simp add: row_at_load_other row_at_upsert)
  next
    case False
    then show ?thesis using Cons by simp
  qed
qed

lemma row_at_member: "row_at k s = Some r \<Longrightarrow> r \<in> set s"
  by (auto simp: row_at_def find_Some_iff)

lemma distinct_rows_loaded:
  "distinct (map key_of rs) \<Longrightarrow> set rs \<subseteq> set (load rs s)"
  using row_at_load_distinct row_at_member by blast

text \<open>
  C7. For every batch with exactly one malformed document and nine valid documents,
  and every store, the batch result reports exactly one \<open>DecodeError\<close>, nine rows are
  loaded (created or updated), every valid document has a row of its key in the
  store afterwards, and when the nine keys differ the store holds each of the nine
  rows as transformed. Ingestion is a total function: it has a result for every
  batch, so the malformed document does not abort the others.
\<close>

theorem one_malformed_document_is_isolated:
  assumes "length (filter malformed batch) = 1" and "length (filter valid batch) = 9"
  shows "length (filter is_DecodeError (issues (snd (ingest batch store)))) = 1
    \<and> length (batch_rows batch store) = 9
    \<and> created (snd (ingest batch store)) + updated (snd (ingest batch store)) = 9
    \<and> (\<forall>d \<in> set batch. valid d \<longrightarrow>
          (\<exists>r. document_row (known_keys batch store) d = Some r
             \<and> key_of r \<in> key_of ` set (fst (ingest batch store))))
    \<and> (distinct (map key_of (batch_rows batch store)) \<longrightarrow>
          (\<forall>d \<in> set batch. \<forall>r. document_row (known_keys batch store) d = Some r \<longrightarrow>
             r \<in> set (fst (ingest batch store))))"
proof -
  let ?rows = "batch_rows batch store"
  have a: "length (filter is_DecodeError (issues (snd (ingest batch store)))) = 1"
    using assms(1) by (simp add: decode_errors_of_ingest)
  have b: "length ?rows = 9"
    using assms(2) by (simp add: length_batch_rows)
  have c: "created (snd (ingest batch store)) + updated (snd (ingest batch store)) = 9"
    using b by (simp add: created_plus_updated)
  have d: "\<exists>r. document_row (known_keys batch store) d = Some r
             \<and> key_of r \<in> key_of ` set (fst (ingest batch store))"
    if "d \<in> set batch" "valid d" for d
  proof -
    from that(2) obtain r where r: "document_row (known_keys batch store) d = Some r"
      by (auto simp: valid_def document_row_def split: sum.splits)
    with that(1) have "r \<in> set ?rows" by (auto simp: set_batch_rows)
    then have "key_of r \<in> key_of ` set (fst (ingest batch store))"
      by (simp add: fst_ingest keys_load)
    with r show ?thesis by blast
  qed
  have e: "r \<in> set (fst (ingest batch store))"
    if "distinct (map key_of ?rows)" "d \<in> set batch"
       "document_row (known_keys batch store) d = Some r" for d r
  proof -
    from that(2,3) have "r \<in> set ?rows" by (auto simp: set_batch_rows)
    then show ?thesis
      using distinct_rows_loaded [OF that(1), of store] by (auto simp: fst_ingest)
  qed
  show ?thesis using a b c d e by blast
qed

theorem one_malformed_document_is_isolated_witness:
  "length (filter malformed one_malformed_nine_valid) = 1
   \<and> length (filter valid one_malformed_nine_valid) = 9
   \<and> length (filter is_DecodeError (issues (snd (ingest one_malformed_nine_valid [])))) = 1
   \<and> issues (snd (ingest one_malformed_nine_valid [])) =
       [(1, DecodeError), (5, UnresolvedReference (Encounter, ''e9''))]
   \<and> created (snd (ingest one_malformed_nine_valid []))
       + updated (snd (ingest one_malformed_nine_valid [])) = 9
   \<and> map key_of (fst (ingest one_malformed_nine_valid [])) =
       [(Patient, ''p1''), (Patient, ''p2''), (Encounter, ''e1''), (Condition, ''c1''),
        (Observation, ''o1''), (Immunization, ''i1''), (CarePlan, ''cp1''),
        (MedicationRequest, ''m1''), (Procedure, ''pr1'')]"
proof -
  have h1: "length (filter malformed one_malformed_nine_valid) = 1" by code_simp
  have h2: "length (filter valid one_malformed_nine_valid) = 9" by code_simp
  have i: "issues (snd (ingest one_malformed_nine_valid [])) =
       [(1, DecodeError), (5, UnresolvedReference (Encounter, ''e9''))]"
    by code_simp
  have k: "map key_of (fst (ingest one_malformed_nine_valid [])) =
       [(Patient, ''p1''), (Patient, ''p2''), (Encounter, ''e1''), (Condition, ''c1''),
        (Observation, ''o1''), (Immunization, ''i1''), (CarePlan, ''cp1''),
        (MedicationRequest, ''m1''), (Procedure, ''pr1'')]"
    by code_simp
  show ?thesis
    using h1 h2 i k one_malformed_document_is_isolated [OF h1 h2, of "[]"] by blast
qed

end
